theory Spec2Isabelle
  imports Complex_Main "HOL-Library.Word"
begin

unbundle bit_operations_syntax

section \<open>Python values: bytes, slices, integers, errors\<close>

text \<open>
  The exceptions the decoders of \<^verbatim>\<open>orphe_insole.py\<close> can raise:
  \<^verbatim>\<open>IndexError\<close> (an index beyond a \<^verbatim>\<open>bytearray\<close> or a list),
  \<^verbatim>\<open>ValueError\<close> (\<^verbatim>\<open>datetime.replace\<close>, \<^verbatim>\<open>bytearray([...])\<close>),
  \<^verbatim>\<open>struct.error\<close> (\<^verbatim>\<open>struct.unpack\<close> on a buffer of the wrong size) and
  \<^verbatim>\<open>AttributeError\<close> (an attribute that was never assigned).
\<close>

datatype error = IndexError | ValueError | StructError | AttributeError

type_synonym byte = "8 word"
type_synonym bytes = "byte list"

text \<open>\<^verbatim>\<open>data[a:b]\<close> for \<open>0 \<le> a \<le> b\<close>: a slice never raises, it is cut at the end of the data.\<close>

definition slice :: "bytes \<Rightarrow> nat \<Rightarrow> nat \<Rightarrow> bytes" where
  "slice data a b = take (b - a) (drop a data)"

text \<open>\<^verbatim>\<open>data[i]\<close> for \<open>0 \<le> i\<close>: raises \<^verbatim>\<open>IndexError\<close> beyond the end.\<close>

definition index :: "bytes \<Rightarrow> nat \<Rightarrow> error + byte" where
  "index data i = (if i < length data then Inr (data ! i) else Inl IndexError)"

definition bindE :: "error + 'a \<Rightarrow> ('a \<Rightarrow> error + 'b) \<Rightarrow> error + 'b" where
  "bindE m f = (case m of Inl e \<Rightarrow> Inl e | Inr v \<Rightarrow> f v)"

text \<open>\<^verbatim>\<open>int.from_bytes(bs, byteorder='big', signed=s)\<close>; the empty slice gives 0.\<close>

definition from_bytes_unsigned :: "bytes \<Rightarrow> int" where
  "from_bytes_unsigned bs = foldl (\<lambda>acc b. acc * 256 + uint b) 0 bs"

definition int_from_bytes :: "bytes \<Rightarrow> bool \<Rightarrow> int" where
  "int_from_bytes bs is_signed =
     (let u = from_bytes_unsigned bs; n = length bs
      in if is_signed \<and> n > 0 \<and> u \<ge> 2 ^ (8 * n - 1) then u - 2 ^ (8 * n) else u)"

text \<open>
  \<^verbatim>\<open>struct.unpack('>e', bs)\<close> and \<^verbatim>\<open>struct.unpack('>f', bs)\<close>: the buffer must hold
  exactly 2 (4) bytes, else \<^verbatim>\<open>struct.error\<close>. The IEEE-754 value is carried as its
  big-endian bit pattern; its reading as a binary float is not modelled.
\<close>

type_synonym float16 = "16 word"
type_synonym float32 = "32 word"

definition unpack_e :: "bytes \<Rightarrow> error + float16" where
  "unpack_e bs = (if length bs = 2 then Inr (word_of_int (from_bytes_unsigned bs)) else Inl StructError)"

definition unpack_f :: "bytes \<Rightarrow> error + float32" where
  "unpack_f bs = (if length bs = 4 then Inr (word_of_int (from_bytes_unsigned bs)) else Inl StructError)"

section \<open>Step-analysis records\<close>

text \<open>Fields of a class carry the class as a prefix where two classes share a field name.\<close>

record GaitData =
  gait_step_count :: int
  gait_type :: int
  direction :: int
  calorie :: float16
  distance :: float32
  standing_phase_duration :: float32
  swing_phase_duration :: float32

definition GaitData :: "bytes \<Rightarrow> error + GaitData" where
  "GaitData data =
     (let sc = int_from_bytes (slice data 2 4) False in
      bindE (index data 4) (\<lambda>b4.
      \<comment> \<open>\<^verbatim>\<open>data[4] & 0b11000000 >> 6\<close>: in Python \<^verbatim>\<open>>>\<close> binds tighter than \<^verbatim>\<open>&\<close>\<close>
      let gt = uint b4 AND (drop_bit 6 (192 :: int));
          dir = drop_bit 3 (uint b4 AND 56) in
      bindE (unpack_e (slice data 6 8)) (\<lambda>cal.
      bindE (unpack_f (slice data 8 12)) (\<lambda>dist.
      bindE (unpack_f (slice data 12 16)) (\<lambda>stand.
      bindE (unpack_f (slice data 16 20)) (\<lambda>swing.
      Inr \<lparr>gait_step_count = sc, gait_type = gt, direction = dir, calorie = cal,
           distance = dist, standing_phase_duration = stand,
           swing_phase_duration = swing\<rparr>))))))"

record StrideData =
  stride_step_count :: int
  foot_angle :: float32
  stride_x :: float32
  stride_y :: float32
  stride_z :: float32

definition StrideData :: "bytes \<Rightarrow> error + StrideData" where
  "StrideData data =
     (let sc = int_from_bytes (slice data 2 4) False in
      bindE (unpack_f (slice data 4 8)) (\<lambda>fa.
      bindE (unpack_f (slice data 8 12)) (\<lambda>sx.
      bindE (unpack_f (slice data 12 16)) (\<lambda>sy.
      bindE (unpack_f (slice data 16 20)) (\<lambda>sz.
      Inr \<lparr>stride_step_count = sc, foot_angle = fa, stride_x = sx, stride_y = sy,
           stride_z = sz\<rparr>)))))"

record PronationData =
  pronation_step_count :: int
  landing_impact :: float32
  pronation_x :: float32
  pronation_y :: float32
  pronation_z :: float32

definition PronationData :: "bytes \<Rightarrow> error + PronationData" where
  "PronationData data =
     (let sc = int_from_bytes (slice data 2 4) False in
      bindE (unpack_f (slice data 4 8)) (\<lambda>li.
      bindE (unpack_f (slice data 8 12)) (\<lambda>px.
      bindE (unpack_f (slice data 12 16)) (\<lambda>py.
      bindE (unpack_f (slice data 16 20)) (\<lambda>pz.
      Inr \<lparr>pronation_step_count = sc, landing_impact = li, pronation_x = px,
           pronation_y = py, pronation_z = pz\<rparr>)))))"

record QuatDistanceData =
  qd_step_count :: int
  phase :: int
  period :: int
  event :: int
  qd_w :: float16
  qd_x :: float16
  qd_y :: float16
  qd_z :: float16
  x_distance :: float16
  y_distance :: float16
  z_distance :: float16

definition QuatDistanceData :: "bytes \<Rightarrow> error + QuatDistanceData" where
  "QuatDistanceData data =
     (let sc = int_from_bytes (slice data 2 4) False in
      bindE (index data 4) (\<lambda>b4.
      let ph = uint b4 AND 1;
          pe = drop_bit 1 (uint b4 AND 30);
          ev = drop_bit 5 (uint b4 AND 224) in
      bindE (unpack_e (slice data 6 8)) (\<lambda>w.
      bindE (unpack_e (slice data 8 10)) (\<lambda>x.
      bindE (unpack_e (slice data 10 12)) (\<lambda>y.
      bindE (unpack_e (slice data 12 14)) (\<lambda>z.
      bindE (unpack_e (slice data 14 16)) (\<lambda>xd.
      bindE (unpack_e (slice data 16 18)) (\<lambda>yd.
      bindE (unpack_e (slice data 18 20)) (\<lambda>zd.
      Inr \<lparr>qd_step_count = sc, phase = ph, period = pe, event = ev, qd_w = w, qd_x = x,
           qd_y = y, qd_z = z, x_distance = xd, y_distance = yd, z_distance = zd\<rparr>)))))))))"

section \<open>Sensor records and device information\<close>

text \<open>
  A sensor value is \<^verbatim>\<open>int.from_bytes(..., signed=True) / 32768\<close>, a Python float. A
  16-bit integer divided by \<open>2 ^ 15\<close> and its product with a table entry of at most
  2000 are exact in binary64, so the values are modelled as rationals.
\<close>

record AccData =
  acc_x :: rat
  acc_y :: rat
  acc_z :: rat
  acc_timestamp :: int
  acc_serial_number :: int
  acc_packet_number :: int

record GyroData =
  gyro_x :: rat
  gyro_y :: rat
  gyro_z :: rat
  gyro_timestamp :: int
  gyro_serial_number :: int
  gyro_packet_number :: int

record QuatData =
  quat_w :: rat
  quat_x :: rat
  quat_y :: rat
  quat_z :: rat
  quat_timestamp :: int
  quat_serial_number :: int
  quat_packet_number :: int

record PressureData =
  pressure_values :: "int list"
  pressure_timestamp :: int
  pressure_serial_number :: int
  pressure_packet_number :: int

record Range =
  acc :: int
  gyro :: int

text \<open>
  \<^verbatim>\<open>DeviceInformation\<close>: the attributes decoded from the payload (the attribute
  \<^verbatim>\<open>device_information\<close> of the class is always \<^verbatim>\<open>None\<close> and is left out). A slice of
  one byte never raises, so the decoder is total.
\<close>

record DeviceInformation =
  di_data :: bytes
  battery :: int
  mount_position :: int
  di_range :: Range
  version :: int

definition DeviceInformation :: "bytes \<Rightarrow> DeviceInformation" where
  "DeviceInformation data =
     \<lparr>di_data = data,
      battery = int_from_bytes (slice data 0 1) False,
      mount_position = int_from_bytes (slice data 1 2) False,
      di_range = \<lparr>acc = int_from_bytes (slice data 8 9) False,
                  gyro = int_from_bytes (slice data 9 10) False\<rparr>,
      version = int_from_bytes (slice data 18 19) False\<rparr>"

record StepCount =
  gait :: int
  stride :: int
  pronation :: int
  quat :: int

section \<open>The session object and its callbacks\<close>

text \<open>
  The callback attributes of \<^verbatim>\<open>Orphe\<close>. The session object holds the set of those
  that exist and are truthy
  (\<^verbatim>\<open>hasattr(owner, 'got_acc_callback') and owner.got_acc_callback\<close>).
\<close>

datatype callback =
    lost_data_callback | got_pressure_callback | got_acc_callback | got_gyro_callback
  | got_converted_acc_callback | got_converted_gyro_callback | got_quat_callback
  | got_gait_callback | got_stride_callback | got_pronation_callback
  | got_quat_distance_callback | on_disconnect_callback

text \<open>One invocation of a callback, with its arguments.\<close>

datatype call =
    Acc AccData | ConvertedAcc AccData | Gyro GyroData | ConvertedGyro GyroData
  | Quat QuatData | Pressure PressureData
  | Gait GaitData | Stride StrideData | Pronation PronationData
  | QuatDistance QuatDistanceData
  | LostData int int

text \<open>An attribute that \<^verbatim>\<open>__init__\<close> does not assign: absent, \<^verbatim>\<open>None\<close>, or a value.\<close>

datatype 'a attr = Unset | PyNone | Value 'a

text \<open>
  \<^verbatim>\<open>client\<close> is \<^verbatim>\<open>None\<close> or a transport client, of which only \<^verbatim>\<open>is_connected\<close>
  is read.
\<close>

record Orphe =
  serial_number_prev :: int
  client :: "bool option"
  step_count :: StepCount
  device_information :: "DeviceInformation attr"
  callbacks :: "callback set"

definition Orphe_init :: "Orphe" where
  "Orphe_init =
     \<lparr>serial_number_prev = 0, client = None,
      step_count = \<lparr>gait = 0, stride = 0, pronation = 0, quat = 0\<rparr>,
      device_information = Unset, callbacks = {}\<rparr>"

definition is_connected :: "Orphe \<Rightarrow> bool" where
  "is_connected self = (case client self of None \<Rightarrow> False | Some c \<Rightarrow> c)"

definition invoke :: "Orphe \<Rightarrow> callback \<Rightarrow> call \<Rightarrow> call list" where
  "invoke owner cb c = (if cb \<in> callbacks owner then [c] else [])"

text \<open>
  What one handler run leaves behind: the callbacks invoked, in order, the session object
  as it is afterwards, and the exception that ended the run, if any.
\<close>

type_synonym outcome = "call list \<times> Orphe \<times> error option"

definition calls :: "outcome \<Rightarrow> call list" where
  "calls r = fst r"

definition after :: "outcome \<Rightarrow> Orphe" where
  "after r = fst (snd r)"

definition raised :: "outcome \<Rightarrow> error option" where
  "raised r = snd (snd r)"

section \<open>Step-analysis decoder\<close>

definition StepAnalysisData :: "Orphe \<Rightarrow> bytes \<Rightarrow> outcome" where
  "StepAnalysisData owner data =
     (case index data 1 of
        Inl e \<Rightarrow> ([], owner, Some e)
      | Inr sub \<Rightarrow>
          let sc = int_from_bytes (slice data 2 4) False in
          if sub = 0 then
            (if sc > gait (step_count owner) then
               (case GaitData data of
                  Inl e \<Rightarrow> ([], owner, Some e)
                | Inr g \<Rightarrow>
                    (invoke owner got_gait_callback (Gait g),
                     owner\<lparr>step_count := (step_count owner)\<lparr>gait := sc\<rparr>\<rparr>, None))
             else ([], owner\<lparr>step_count := (step_count owner)\<lparr>gait := sc\<rparr>\<rparr>, None))
          else if sub = 1 then
            (if sc > stride (step_count owner) then
               (case StrideData data of
                  Inl e \<Rightarrow> ([], owner, Some e)
                | Inr s \<Rightarrow>
                    (invoke owner got_stride_callback (Stride s),
                     owner\<lparr>step_count := (step_count owner)\<lparr>stride := sc\<rparr>\<rparr>, None))
             else ([], owner\<lparr>step_count := (step_count owner)\<lparr>stride := sc\<rparr>\<rparr>, None))
          else if sub = 2 then
            (if sc > pronation (step_count owner) then
               (case PronationData data of
                  Inl e \<Rightarrow> ([], owner, Some e)
                | Inr p \<Rightarrow>
                    (invoke owner got_pronation_callback (Pronation p),
                     owner\<lparr>step_count := (step_count owner)\<lparr>pronation := sc\<rparr>\<rparr>, None))
             else ([], owner\<lparr>step_count := (step_count owner)\<lparr>pronation := sc\<rparr>\<rparr>, None))
          else if sub = 4 then
            (case QuatDistanceData data of
               Inl e \<Rightarrow> ([], owner, Some e)
             | Inr q \<Rightarrow>
                 (invoke owner got_quat_distance_callback (QuatDistance q),
                  owner\<lparr>step_count := (step_count owner)\<lparr>quat := sc\<rparr>\<rparr>, None))
          else ([], owner, None))"

text \<open>\<^verbatim>\<open>Orphe.step_analysis_notification_handler\<close>: the payload goes to the decoder as it is.\<close>

definition step_analysis_notification_handler :: "Orphe \<Rightarrow> bytes \<Rightarrow> outcome" where
  "step_analysis_notification_handler self data = StepAnalysisData self data"

section \<open>Sensor-stream decoder\<close>

text \<open>
  \<^verbatim>\<open>to_timestamp\<close> puts the time of day of the packet header into today's date and returns
  \<^verbatim>\<open>int(dt.timestamp()*1000)\<close>. The host's date, time zone and float rounding are not
  part of the program: \<open>clk h m s ms\<close> stands for the value Python computes for the time
  of day \<open>h:m:s.ms\<close>. \<^verbatim>\<open>datetime.replace\<close> raises \<^verbatim>\<open>ValueError\<close> for a field out of
  range.
\<close>

type_synonym clock = "int \<Rightarrow> int \<Rightarrow> int \<Rightarrow> int \<Rightarrow> int"

definition to_timestamp :: "clock \<Rightarrow> byte \<Rightarrow> byte \<Rightarrow> byte \<Rightarrow> byte \<Rightarrow> byte \<Rightarrow> error + int" where
  "to_timestamp clk hours minutes seconds ms_high ms_low =
     (let milliseconds = push_bit 8 (uint ms_high) OR uint ms_low in
      if uint hours > 23 \<or> uint minutes > 59 \<or> uint seconds > 59
         \<or> milliseconds * 1000 > 999999
      then Inl ValueError
      else Inr (clk (uint hours) (uint minutes) (uint seconds) milliseconds))"

text \<open>\<^verbatim>\<open>int.from_bytes(data[off:off+2], byteorder='big', signed=True) / 32768\<close>\<close>

definition norm16 :: "bytes \<Rightarrow> nat \<Rightarrow> rat" where
  "norm16 data off = of_int (int_from_bytes (slice data off (off + 2)) True) / 32768"

text \<open>\<^verbatim>\<open>xs[i]\<close> on a Python list: a negative index counts from the end.\<close>

definition list_get :: "int list \<Rightarrow> int \<Rightarrow> error + int" where
  "list_get xs i =
     (if 0 \<le> i \<and> i < int (length xs) then Inr (xs ! nat i)
      else if i < 0 \<and> - int (length xs) \<le> i then Inr (xs ! nat (int (length xs) + i))
      else Inl IndexError)"

text \<open>The six pressure channels of a slot: \<^verbatim>\<open>data[base+2*j : base+2+2*j]\<close> for \<open>j < 6\<close>.\<close>

definition pressure_channels :: "bytes \<Rightarrow> nat \<Rightarrow> int list" where
  "pressure_channels data base =
     map (\<lambda>j. int_from_bytes (slice data (base + 2 * j) (base + 2 + 2 * j)) False) [0..<6]"

text \<open>
  The body of the loop over the sample slots, one function per format tag. It takes the
  slot index \<open>i\<close> and the running \<^verbatim>\<open>each_timestamp\<close>, and returns the callbacks invoked
  and the new \<^verbatim>\<open>each_timestamp\<close>, or the exception raised before any callback of the slot.
\<close>

definition slot50 :: "Orphe \<Rightarrow> bytes \<Rightarrow> Range \<Rightarrow> int \<Rightarrow> nat \<Rightarrow> int \<Rightarrow> error + (call list \<times> int)" where
  "slot50 owner data sensor_range sn i each_timestamp =
     (let step = 21 * i;
          ax = norm16 data (22 + step); ay = norm16 data (24 + step); az = norm16 data (26 + step)
      in
      bindE (list_get [2, 4, 8, 16] (acc sensor_range)) (\<lambda>amp_acc.
      let gx = norm16 data (16 + step); gy = norm16 data (18 + step); gz = norm16 data (20 + step)
      in
      bindE (list_get [250, 500, 1000, 2000] (gyro sensor_range)) (\<lambda>amp_gyro.
      let qw = norm16 data (8 + step); qx = norm16 data (10 + step);
          qy = norm16 data (12 + step); qz = norm16 data (14 + step);
          pn = 3 - int i
      in
      bindE (if i = 3 then Inr each_timestamp
             else bindE (index data (28 + step)) (\<lambda>d. Inr (each_timestamp + uint d))) (\<lambda>ts.
      Inr (invoke owner got_acc_callback
             (Acc \<lparr>acc_x = ax, acc_y = ay, acc_z = az, acc_timestamp = ts,
                   acc_serial_number = sn, acc_packet_number = pn\<rparr>)
           @ invoke owner got_converted_acc_callback
             (ConvertedAcc \<lparr>acc_x = ax * of_int amp_acc, acc_y = ay * of_int amp_acc,
                   acc_z = az * of_int amp_acc, acc_timestamp = ts,
                   acc_serial_number = sn, acc_packet_number = pn\<rparr>)
           @ invoke owner got_gyro_callback
             (Gyro \<lparr>gyro_x = gx, gyro_y = gy, gyro_z = gz, gyro_timestamp = ts,
                   gyro_serial_number = sn, gyro_packet_number = pn\<rparr>)
           @ invoke owner got_converted_gyro_callback
             (ConvertedGyro \<lparr>gyro_x = gx * of_int amp_gyro, gyro_y = gy * of_int amp_gyro,
                   gyro_z = gz * of_int amp_gyro, gyro_timestamp = ts,
                   gyro_serial_number = sn, gyro_packet_number = pn\<rparr>)
           @ invoke owner got_quat_callback
             (Quat \<lparr>quat_w = qw, quat_x = qx, quat_y = qy, quat_z = qz, quat_timestamp = ts,
                   quat_serial_number = sn, quat_packet_number = pn\<rparr>),
           ts)))))"

definition slot55 :: "Orphe \<Rightarrow> bytes \<Rightarrow> Range \<Rightarrow> int \<Rightarrow> nat \<Rightarrow> int \<Rightarrow> error + (call list \<times> int)" where
  "slot55 owner data sensor_range sn i each_timestamp =
     (let step = 24 * i;
          ax = norm16 data (14 + step); ay = norm16 data (16 + step); az = norm16 data (18 + step)
      in
      bindE (list_get [2, 4, 8, 16] (acc sensor_range)) (\<lambda>amp_acc.
      let gx = norm16 data (8 + step); gy = norm16 data (10 + step); gz = norm16 data (12 + step)
      in
      bindE (list_get [250, 500, 1000, 2000] (gyro sensor_range)) (\<lambda>amp_gyro.
      let pv = pressure_channels data (20 + step);
          pn = 3 - int i
      in
      bindE (if i = 3 then Inr each_timestamp
             else bindE (index data (28 + step)) (\<lambda>d. Inr (each_timestamp + uint d))) (\<lambda>ts.
      Inr (invoke owner got_acc_callback
             (Acc \<lparr>acc_x = ax, acc_y = ay, acc_z = az, acc_timestamp = ts,
                   acc_serial_number = sn, acc_packet_number = pn\<rparr>)
           @ invoke owner got_converted_acc_callback
             (ConvertedAcc \<lparr>acc_x = ax * of_int amp_acc, acc_y = ay * of_int amp_acc,
                   acc_z = az * of_int amp_acc, acc_timestamp = ts,
                   acc_serial_number = sn, acc_packet_number = pn\<rparr>)
           @ invoke owner got_gyro_callback
             (Gyro \<lparr>gyro_x = gx, gyro_y = gy, gyro_z = gz, gyro_timestamp = ts,
                   gyro_serial_number = sn, gyro_packet_number = pn\<rparr>)
           @ invoke owner got_converted_gyro_callback
             (ConvertedGyro \<lparr>gyro_x = gx * of_int amp_gyro, gyro_y = gy * of_int amp_gyro,
                   gyro_z = gz * of_int amp_gyro, gyro_timestamp = ts,
                   gyro_serial_number = sn, gyro_packet_number = pn\<rparr>)
           @ invoke owner got_pressure_callback
             (Pressure \<lparr>pressure_values = pv, pressure_timestamp = ts,
                   pressure_serial_number = sn, pressure_packet_number = pn\<rparr>),
           ts)))))"

definition slot56 :: "Orphe \<Rightarrow> bytes \<Rightarrow> Range \<Rightarrow> int \<Rightarrow> nat \<Rightarrow> int \<Rightarrow> error + (call list \<times> int)" where
  "slot56 owner data sensor_range sn i each_timestamp =
     (let step = 32 * i;
          ax = norm16 data (22 + step); ay = norm16 data (24 + step); az = norm16 data (26 + step)
      in
      bindE (list_get [2, 4, 8, 16] (acc sensor_range)) (\<lambda>amp_acc.
      let gx = norm16 data (16 + step); gy = norm16 data (18 + step); gz = norm16 data (20 + step)
      in
      bindE (list_get [250, 500, 1000, 2000] (gyro sensor_range)) (\<lambda>amp_gyro.
      let qw = norm16 data (8 + step); qx = norm16 data (10 + step);
          qy = norm16 data (12 + step); qz = norm16 data (14 + step);
          pv = pressure_channels data (28 + step);
          pn = 1 - int i;
          ts = each_timestamp
      in
      Inr (invoke owner got_acc_callback
             (Acc \<lparr>acc_x = ax, acc_y = ay, acc_z = az, acc_timestamp = ts,
                   acc_serial_number = sn, acc_packet_number = pn\<rparr>)
           @ invoke owner got_converted_acc_callback
             (ConvertedAcc \<lparr>acc_x = ax * of_int amp_acc, acc_y = ay * of_int amp_acc,
                   acc_z = az * of_int amp_acc, acc_timestamp = ts,
                   acc_serial_number = sn, acc_packet_number = pn\<rparr>)
           @ invoke owner got_gyro_callback
             (Gyro \<lparr>gyro_x = gx, gyro_y = gy, gyro_z = gz, gyro_timestamp = ts,
                   gyro_serial_number = sn, gyro_packet_number = pn\<rparr>)
           @ invoke owner got_converted_gyro_callback
             (ConvertedGyro \<lparr>gyro_x = gx * of_int amp_gyro, gyro_y = gy * of_int amp_gyro,
                   gyro_z = gz * of_int amp_gyro, gyro_timestamp = ts,
                   gyro_serial_number = sn, gyro_packet_number = pn\<rparr>)
           @ invoke owner got_pressure_callback
             (Pressure \<lparr>pressure_values = pv, pressure_timestamp = ts,
                   pressure_serial_number = sn, pressure_packet_number = pn\<rparr>)
           @ invoke owner got_quat_callback
             (Quat \<lparr>quat_w = qw, quat_x = qx, quat_y = qy, quat_z = qz, quat_timestamp = ts,
                   quat_serial_number = sn, quat_packet_number = pn\<rparr>),
           ts))))"

text \<open>
  \<^verbatim>\<open>for i in range(n, -1, -1)\<close>: the slots in the order given, \<^verbatim>\<open>each_timestamp\<close> threaded
  through; an exception ends the loop and keeps the callbacks already invoked.
\<close>

fun for_slots :: "(nat \<Rightarrow> int \<Rightarrow> error + (call list \<times> int)) \<Rightarrow> nat list \<Rightarrow> int \<Rightarrow> call list \<times> error option" where
  "for_slots body [] ts = ([], None)"
| "for_slots body (i # slots) ts =
     (case body i ts of
        Inl e \<Rightarrow> ([], Some e)
      | Inr (cs, ts') \<Rightarrow> (case for_slots body slots ts' of (cs', r) \<Rightarrow> (cs @ cs', r)))"

text \<open>
  The attributes every branch of \<^verbatim>\<open>SensorValuesData.__init__\<close> sets from the header. (The
  attributes \<^verbatim>\<open>acc\<close>, \<^verbatim>\<open>gyro\<close>, ... are overwritten in every slot; their values reach
  the program only through the callbacks.)
\<close>

record SensorValuesData =
  svd_type :: int
  svd_serial_number :: int
  svd_timestamp :: int

definition header :: "clock \<Rightarrow> bytes \<Rightarrow> error + SensorValuesData" where
  "header clk data =
     (let ty = int_from_bytes (slice data 0 1) False;
          sn = int_from_bytes (slice data 1 3) False
      in
      bindE (index data 3) (\<lambda>h.
      bindE (index data 4) (\<lambda>m.
      bindE (index data 5) (\<lambda>s.
      bindE (index data 6) (\<lambda>mh.
      bindE (index data 7) (\<lambda>ml.
      bindE (to_timestamp clk h m s mh ml) (\<lambda>ts.
      Inr \<lparr>svd_type = ty, svd_serial_number = sn, svd_timestamp = ts\<rparr>)))))))"

definition decode_slots ::
  "clock \<Rightarrow> bytes \<Rightarrow> (int \<Rightarrow> nat \<Rightarrow> int \<Rightarrow> error + (call list \<times> int)) \<Rightarrow> nat list
     \<Rightarrow> call list \<times> (error + SensorValuesData option)" where
  "decode_slots clk data body slots =
     (case header clk data of
        Inl e \<Rightarrow> ([], Inl e)
      | Inr hdr \<Rightarrow>
          (case for_slots (body (svd_serial_number hdr)) slots (svd_timestamp hdr) of
             (cs, None) \<Rightarrow> (cs, Inr (Some hdr))
           | (cs, Some e) \<Rightarrow> (cs, Inl e)))"

text \<open>
  \<^verbatim>\<open>SensorValuesData(owner, data, sensor_range)\<close>: the callbacks invoked, and the object
  built or the exception raised. A first byte other than 50, 55 and 56 matches no branch:
  the object has no attribute (\<open>None\<close>) and nothing is invoked.
\<close>

definition SensorValuesData ::
  "clock \<Rightarrow> Orphe \<Rightarrow> bytes \<Rightarrow> Range \<Rightarrow> call list \<times> (error + SensorValuesData option)" where
  "SensorValuesData clk owner data sensor_range =
     (case index data 0 of
        Inl e \<Rightarrow> ([], Inl e)
      | Inr tag \<Rightarrow>
          if tag = 50 then decode_slots clk data (slot50 owner data sensor_range) [3, 2, 1, 0]
          else if tag = 55 then decode_slots clk data (slot55 owner data sensor_range) [3, 2, 1, 0]
          else if tag = 56 then decode_slots clk data (slot56 owner data sensor_range) [1, 0]
          else ([], Inr None))"

text \<open>\<^verbatim>\<open>self.device_information.range\<close>\<close>

definition device_range :: "Orphe \<Rightarrow> error + Range" where
  "device_range self =
     (case device_information self of
        Value di \<Rightarrow> Inr (di_range di)
      | _ \<Rightarrow> Inl AttributeError)"

definition sensor_values_notification_handler :: "clock \<Rightarrow> Orphe \<Rightarrow> bytes \<Rightarrow> outcome" where
  "sensor_values_notification_handler clk self data =
     (if \<not> is_connected self then ([], self, None)
      else
        (case index data 0 of
           Inl e \<Rightarrow> ([], self, Some e)
         | Inr tag \<Rightarrow>
             if tag = 50 \<or> tag = 55 \<or> tag = 56 then
               (case device_range self of
                  Inl e \<Rightarrow> ([], self, Some e)
                | Inr rng \<Rightarrow>
                    (case SensorValuesData clk self data rng of
                       (cs, Inl e) \<Rightarrow> (cs, self, Some e)
                     | (cs, Inr None) \<Rightarrow> (cs, self, Some AttributeError)
                     | (cs, Inr (Some sv)) \<Rightarrow>
                         (cs @ (if svd_serial_number sv - serial_number_prev self > 1
                                then invoke self lost_data_callback
                                       (LostData (serial_number_prev self) (svd_serial_number sv))
                                else []),
                          self\<lparr>serial_number_prev := svd_serial_number sv\<rparr>, None)))
             else if tag = 40 then
               (case device_range self of
                  Inl e \<Rightarrow> ([], self, Some e)
                | Inr rng \<Rightarrow>
                    (case SensorValuesData clk self data rng of
                       (cs, Inl e) \<Rightarrow> (cs, self, Some e)
                     | (cs, Inr _) \<Rightarrow> (cs, self, None)))
             else ([], self, None)))"

section \<open>Device configuration: the write buffer\<close>

text \<open>\<^verbatim>\<open>bytearray([...])\<close> raises \<^verbatim>\<open>ValueError\<close> for an element outside \<open>0..255\<close>.\<close>

definition bytearray :: "int list \<Rightarrow> error + bytes" where
  "bytearray xs =
     (if list_all (\<lambda>x. 0 \<le> x \<and> x < 256) xs then Inr (map word_of_int xs) else Inl ValueError)"

fun checksum_loop :: "bytes \<Rightarrow> nat list \<Rightarrow> int \<Rightarrow> error + int" where
  "checksum_loop data [] checksum = Inr checksum"
| "checksum_loop data (i # rest) checksum =
     bindE (index data i) (\<lambda>b. checksum_loop data rest (checksum + uint b))"

definition getChecksum :: "bytes \<Rightarrow> error + int" where
  "getChecksum data = bindE (checksum_loop data [0..<19] 0) (\<lambda>checksum. Inr (checksum AND 255))"

text \<open>
  \<^verbatim>\<open>write_device_information\<close>: \<open>write_buffer\<close> is the 20 bytes built from the stored
  configuration. The method returns without writing (\<open>None\<close>) when
  \<^verbatim>\<open>self.device_information is None\<close>; otherwise it builds the buffer and hands it to
  \<^verbatim>\<open>self.client.write_gatt_char\<close>, which raises \<^verbatim>\<open>AttributeError\<close> when \<^verbatim>\<open>client\<close> is
  \<^verbatim>\<open>None\<close>. What the transport does with the buffer is outside the program.
\<close>

definition write_buffer :: "DeviceInformation \<Rightarrow> error + bytes" where
  "write_buffer di =
     bindE (bytearray
              [9, mount_position di, 0, 0, 1, 0, 60, acc (di_range di), gyro (di_range di),
               0, 0, 0, 255, 0, 0, 0, 0, 0, version di]) (\<lambda>ba_write.
     bindE (getChecksum ba_write) (\<lambda>checksum.
     bindE (bytearray [checksum]) (\<lambda>last. Inr (ba_write @ last))))"

definition write_device_information :: "Orphe \<Rightarrow> error + bytes option" where
  "write_device_information self =
     (case device_information self of
        Unset \<Rightarrow> Inl AttributeError
      | PyNone \<Rightarrow> Inr None
      | Value di \<Rightarrow>
          bindE (write_buffer di) (\<lambda>ba_write.
            (case client self of
               None \<Rightarrow> Inl AttributeError
             | Some _ \<Rightarrow> Inr (Some ba_write))))"

section \<open>Two deliveries of one step-analysis payload\<close>

text \<open>The device sends a step-analysis payload twice; the second run starts from the session the first one left.\<close>

definition second_run :: "Orphe \<Rightarrow> bytes \<Rightarrow> outcome" where
  "second_run owner data =
     step_analysis_notification_handler (after (step_analysis_notification_handler owner data)) data"

section \<open>Sample inputs\<close>

text \<open>A clock for the samples: today's midnight is the epoch.\<close>

definition sample_clock :: clock where
  "sample_clock h m s ms = ((h * 60 + m) * 60 + s) * 1000 + ms"

text \<open>A device-information payload: battery 80, mount position 1, ranges 0 and 3, version 7.\<close>

definition sample_information :: bytes where
  "sample_information = [80, 1, 0, 0, 0, 0, 0, 0, 0, 3, 0, 0, 0, 0, 0, 0, 0, 0, 7]"

text \<open>
  A connected session after \<^verbatim>\<open>read_device_information\<close>, every callback set, serial
  number 5 seen last, step count 7 seen last in every category.
\<close>

definition sample_session :: Orphe where
  "sample_session =
     \<lparr>serial_number_prev = 5, client = Some True,
      step_count = \<lparr>gait = 7, stride = 7, pronation = 7, quat = 7\<rparr>,
      device_information = Value (DeviceInformation sample_information),
      callbacks = UNIV\<rparr>"

text \<open>
  Step-analysis payloads of sub-type \<open>sub\<close>, step count \<open>n < 256\<close> and bit-field byte
  \<open>b4\<close>; the float fields are zero but for the byte \<open>b4\<close> shares with them.
\<close>

definition step_payload :: "byte \<Rightarrow> byte \<Rightarrow> byte \<Rightarrow> bytes" where
  "step_payload sub n b4 = [0, sub, 0, n, b4, 0, 0, 0, 0, 0, 0, 0, 0, 0, 0, 0, 0, 0, 0, 0]"

text \<open>
  Sensor-stream payloads: the format tag, the two bytes of the serial number, the header
  time 00:00:00.000, and \<open>n\<close> bytes \<open>fill\<close> after the 8-byte header.
\<close>

definition sensor_payload :: "byte \<Rightarrow> byte \<Rightarrow> byte \<Rightarrow> nat \<Rightarrow> byte \<Rightarrow> bytes" where
  "sensor_payload tag serial_high serial_low n fill =
     [tag, serial_high, serial_low, 0, 0, 0, 0, 0] @ replicate n fill"

text \<open>A device configuration to write: mount position 1, ranges 1 and 2, version 7.\<close>

definition sample_config :: DeviceInformation where
  "sample_config =
     \<lparr>di_data = sample_information, battery = 80, mount_position = 1,
      di_range = \<lparr>acc = 1, gyro = 2\<rparr>, version = 7\<rparr>"

text \<open>
  The accelerometer callback of a sample packet with serial number 6: every axis is
  \<open>0x0101 / 32768\<close>, or 0 where the payload ends with the header.
\<close>

definition sample_acc :: "rat \<Rightarrow> int \<Rightarrow> int \<Rightarrow> call" where
  "sample_acc v ts pn =
     Acc \<lparr>acc_x = v, acc_y = v, acc_z = v, acc_timestamp = ts, acc_serial_number = 6,
          acc_packet_number = pn\<rparr>"

definition sample_header :: "int \<Rightarrow> SensorValuesData" where
  "sample_header tag = \<lparr>svd_type = tag, svd_serial_number = 6, svd_timestamp = 0\<rparr>"

text \<open>The sample session with the accelerometer callback alone.\<close>

definition acc_session :: Orphe where
  "acc_session = sample_session\<lparr>callbacks := {got_acc_callback}\<rparr>"





section \<open>Reading the callbacks invoked\<close>

fun call_timestamp :: "call \<Rightarrow> int option" where
  "call_timestamp (Acc a) = Some (acc_timestamp a)"
| "call_timestamp (ConvertedAcc a) = Some (acc_timestamp a)"
| "call_timestamp (Gyro g) = Some (gyro_timestamp g)"
| "call_timestamp (ConvertedGyro g) = Some (gyro_timestamp g)"
| "call_timestamp (Quat q) = Some (quat_timestamp q)"
| "call_timestamp (Pressure p) = Some (pressure_timestamp p)"
| "call_timestamp _ = None"

fun call_packet_number :: "call \<Rightarrow> int option" where
  "call_packet_number (Acc a) = Some (acc_packet_number a)"
| "call_packet_number (ConvertedAcc a) = Some (acc_packet_number a)"
| "call_packet_number (Gyro g) = Some (gyro_packet_number g)"
| "call_packet_number (ConvertedGyro g) = Some (gyro_packet_number g)"
| "call_packet_number (Quat q) = Some (quat_packet_number q)"
| "call_packet_number (Pressure p) = Some (pressure_packet_number p)"
| "call_packet_number _ = None"

fun is_lost :: "call \<Rightarrow> bool" where
  "is_lost (LostData _ _) = True"
| "is_lost _ = False"

text \<open>Writing a configuration and decoding the buffer written.\<close>

definition decode_written :: "DeviceInformation \<Rightarrow> error + DeviceInformation" where
  "decode_written di = bindE (write_buffer di) (\<lambda>ba_write. Inr (DeviceInformation ba_write))"

section \<open>Facts about the field codec\<close>

lemma length_slice: "length (slice data a b) = min (b - a) (length data - a)"
  by (simp add: slice_def)

lemma index_in_range: "i < length data \<Longrightarrow> index data i = Inr (data ! i)"
  by (simp add: index_def)

lemma index_beyond: "length data \<le> i \<Longrightarrow> index data i = Inl IndexError"
  by (simp add: index_def)

lemma GaitData_total: "20 \<le> length data \<Longrightarrow> \<exists>g. GaitData data = Inr g"
  by (simp add: GaitData_def bindE_def index_def unpack_e_def unpack_f_def length_slice Let_def)

lemma StrideData_total: "20 \<le> length data \<Longrightarrow> \<exists>s. StrideData data = Inr s"
  by (simp add: StrideData_def bindE_def unpack_f_def length_slice Let_def)

lemma PronationData_total: "20 \<le> length data \<Longrightarrow> \<exists>p. PronationData data = Inr p"
  by (simp add: PronationData_def bindE_def unpack_f_def length_slice Let_def)

lemma QuatDistanceData_total: "20 \<le> length data \<Longrightarrow> \<exists>q. QuatDistanceData data = Inr q"
  by (simp add: QuatDistanceData_def bindE_def index_def unpack_e_def length_slice Let_def)

section \<open>Step analysis: what one run does\<close>

lemma StepAnalysisData_gait:
  assumes "20 \<le> length data" and "data ! 1 = 0"
  shows "StepAnalysisData owner data =
           ((if int_from_bytes (slice data 2 4) False > gait (step_count owner)
             then invoke owner got_gait_callback (Gait (projr (GaitData data))) else []),
            owner\<lparr>step_count := (step_count owner)\<lparr>gait := int_from_bytes (slice data 2 4) False\<rparr>\<rparr>,
            None)"
proof -
  obtain g where "GaitData data = Inr g"
    using GaitData_total [OF assms(1)] by blast
  moreover have "index data 1 = Inr 0"
    using assms by (simp add: index_def)
  ultimately show ?thesis
    by (simp add: StepAnalysisData_def)
qed

lemma StepAnalysisData_stride:
  assumes "20 \<le> length data" and "data ! 1 = 1"
  shows "StepAnalysisData owner data =
           ((if int_from_bytes (slice data 2 4) False > stride (step_count owner)
             then invoke owner got_stride_callback (Stride (projr (StrideData data))) else []),
            owner\<lparr>step_count := (step_count owner)\<lparr>stride := int_from_bytes (slice data 2 4) False\<rparr>\<rparr>,
            None)"
proof -
  obtain s where "StrideData data = Inr s"
    using StrideData_total [OF assms(1)] by blast
  moreover have "index data 1 = Inr 1"
    using assms by (simp add: index_def)
  ultimately show ?thesis
    by (simp add: StepAnalysisData_def)
qed

lemma StepAnalysisData_pronation:
  assumes "20 \<le> length data" and "data ! 1 = 2"
  shows "StepAnalysisData owner data =
           ((if int_from_bytes (slice data 2 4) False > pronation (step_count owner)
             then invoke owner got_pronation_callback (Pronation (projr (PronationData data)))
             else []),
            owner\<lparr>step_count := (step_count owner)\<lparr>pronation := int_from_bytes (slice data 2 4) False\<rparr>\<rparr>,
            None)"
proof -
  obtain p where "PronationData data = Inr p"
    using PronationData_total [OF assms(1)] by blast
  moreover have "index data 1 = Inr 2"
    using assms by (simp add: index_def)
  ultimately show ?thesis
    by (simp add: StepAnalysisData_def)
qed

lemma StepAnalysisData_quat:
  assumes "20 \<le> length data" and "data ! 1 = 4"
  shows "StepAnalysisData owner data =
           (invoke owner got_quat_distance_callback (QuatDistance (projr (QuatDistanceData data))),
            owner\<lparr>step_count := (step_count owner)\<lparr>quat := int_from_bytes (slice data 2 4) False\<rparr>\<rparr>,
            None)"
proof -
  obtain q where "QuatDistanceData data = Inr q"
    using QuatDistanceData_total [OF assms(1)] by blast
  moreover have "index data 1 = Inr 4"
    using assms by (simp add: index_def)
  ultimately show ?thesis
    by (simp add: StepAnalysisData_def)
qed

text \<open>
  C1, as stated, at a session that has already seen step count 7: the gait payload with
  step count 7, processed twice in a row, invokes the gait callback not once but never.
\<close>

theorem gait_twice_counterexample:
  "calls (step_analysis_notification_handler sample_session (step_payload 0 7 67))
     @ calls (second_run sample_session (step_payload 0 7 67)) = []"
  by (simp add: second_run_def step_analysis_notification_handler_def StepAnalysisData_gait
      step_payload_def sample_session_def calls_def after_def from_bytes_unsigned_def
      int_from_bytes_def slice_def)

text \<open>
  C1, amended. For a step-analysis payload of at least 20 bytes processed twice in a row:
  with sub-type 0, 1 or 2 the first run invokes the category's callback (when it is set)
  if and only if the payload's step count is strictly greater than the stored count of
  the category, the second run invokes nothing, and the stored count is the payload's
  step count after either run; so the event is emitted once in total when the step count
  advances and not at all otherwise. With sub-type 4 both runs invoke the quat-distance
  callback (when it is set).
\<close>

theorem step_analysis_twice:
  assumes "20 \<le> length data"
  shows "(data ! 1 = 0 \<longrightarrow>
           calls (step_analysis_notification_handler owner data) =
             (if gait (step_count owner) < int_from_bytes (slice data 2 4) False
              then invoke owner got_gait_callback (Gait (projr (GaitData data))) else [])
           \<and> calls (second_run owner data) = []
           \<and> gait (step_count (after (step_analysis_notification_handler owner data))) =
               int_from_bytes (slice data 2 4) False
           \<and> gait (step_count (after (second_run owner data))) =
               int_from_bytes (slice data 2 4) False)
       \<and> (data ! 1 = 1 \<longrightarrow>
           calls (step_analysis_notification_handler owner data) =
             (if stride (step_count owner) < int_from_bytes (slice data 2 4) False
              then invoke owner got_stride_callback (Stride (projr (StrideData data))) else [])
           \<and> calls (second_run owner data) = []
           \<and> stride (step_count (after (step_analysis_notification_handler owner data))) =
               int_from_bytes (slice data 2 4) False
           \<and> stride (step_count (after (second_run owner data))) =
               int_from_bytes (slice data 2 4) False)
       \<and> (data ! 1 = 2 \<longrightarrow>
           calls (step_analysis_notification_handler owner data) =
             (if pronation (step_count owner) < int_from_bytes (slice data 2 4) False
              then invoke owner got_pronation_callback (Pronation (projr (PronationData data)))
              else [])
           \<and> calls (second_run owner data) = []
           \<and> pronation (step_count (after (step_analysis_notification_handler owner data))) =
               int_from_bytes (slice data 2 4) False
           \<and> pronation (step_count (after (second_run owner data))) =
               int_from_bytes (slice data 2 4) False)
       \<and> (data ! 1 = 4 \<longrightarrow>
           calls (step_analysis_notification_handler owner data) =
             invoke owner got_quat_distance_callback (QuatDistance (projr (QuatDistanceData data)))
           \<and> calls (second_run owner data) =
             invoke owner got_quat_distance_callback (QuatDistance (projr (QuatDistanceData data))))"
  using assms
  by (simp add: second_run_def step_analysis_notification_handler_def calls_def after_def
      StepAnalysisData_gait StepAnalysisData_stride StepAnalysisData_pronation
      StepAnalysisData_quat invoke_def)

theorem step_analysis_twice_witness:
  "20 \<le> length (step_payload 0 8 67)
   \<and> calls (step_analysis_notification_handler sample_session (step_payload 0 8 67)) =
       [Gait \<lparr>gait_step_count = 8, gait_type = 3, direction = 0, calorie = 0, distance = 0,
              standing_phase_duration = 0, swing_phase_duration = 0\<rparr>]
   \<and> calls (second_run sample_session (step_payload 0 8 67)) = []
   \<and> calls (step_analysis_notification_handler sample_session (step_payload 1 8 67)) =
       [Stride \<lparr>stride_step_count = 8, foot_angle = 1124073472, stride_x = 0, stride_y = 0,
                stride_z = 0\<rparr>]
   \<and> calls (second_run sample_session (step_payload 1 8 67)) = []
   \<and> calls (step_analysis_notification_handler sample_session (step_payload 2 8 67)) =
       [Pronation \<lparr>pronation_step_count = 8, landing_impact = 1124073472, pronation_x = 0,
                   pronation_y = 0, pronation_z = 0\<rparr>]
   \<and> calls (second_run sample_session (step_payload 2 8 67)) = []
   \<and> calls (step_analysis_notification_handler sample_session (step_payload 4 7 67)) =
       [QuatDistance \<lparr>qd_step_count = 7, phase = 1, period = 1, event = 2, qd_w = 0, qd_x = 0,
                      qd_y = 0, qd_z = 0, x_distance = 0, y_distance = 0, z_distance = 0\<rparr>]
   \<and> calls (second_run sample_session (step_payload 4 7 67)) =
       [QuatDistance \<lparr>qd_step_count = 7, phase = 1, period = 1, event = 2, qd_w = 0, qd_x = 0,
                      qd_y = 0, qd_z = 0, x_distance = 0, y_distance = 0, z_distance = 0\<rparr>]"
  using step_analysis_twice [of "step_payload 0 8 67" sample_session]
        step_analysis_twice [of "step_payload 1 8 67" sample_session]
        step_analysis_twice [of "step_payload 2 8 67" sample_session]
        step_analysis_twice [of "step_payload 4 7 67" sample_session]
  by (simp add: step_payload_def sample_session_def invoke_def GaitData_def StrideData_def
      PronationData_def QuatDistanceData_def bindE_def index_def unpack_e_def unpack_f_def
      slice_def from_bytes_unsigned_def int_from_bytes_def)

section \<open>Bit fields of the step-analysis records\<close>

lemma GaitData_bit_fields:
  "GaitData data = Inr g \<Longrightarrow>
     gait_type g = uint (data ! 4) AND 3 \<and> direction g = drop_bit 3 (uint (data ! 4) AND 56)"
  by (auto simp add: GaitData_def bindE_def index_def Let_def split: sum.splits if_splits)

text \<open>
  C5 at a gait payload whose byte 4 is \<open>0x48\<close> (gait type 1, walk, in the two top bits;
  direction 1, forward, in the next three): \<^verbatim>\<open>data[4] & 0b11000000 >> 6\<close> is
  \<^verbatim>\<open>data[4] & 3\<close>, the two lowest bits, so the decoded gait type is 0, while
  \<^verbatim>\<open>(data[4] >> 6) & 0b11\<close> is 1. The direction is decoded as the claim says.
\<close>

theorem GaitData_gait_type_low_bits:
  "GaitData (step_payload 0 8 72) =
     Inr \<lparr>gait_step_count = 8, gait_type = 0, direction = 1, calorie = 0, distance = 0,
          standing_phase_duration = 0, swing_phase_duration = 0\<rparr>
   \<and> drop_bit 6 (uint (step_payload 0 8 72 ! 4)) AND 3 = 1
   \<and> drop_bit 3 (uint (step_payload 0 8 72 ! 4)) AND 7 = 1"
  by (simp add: step_payload_def GaitData_def bindE_def index_def unpack_e_def unpack_f_def
      slice_def from_bytes_unsigned_def int_from_bytes_def)

text \<open>
  C10. For every payload that \<^verbatim>\<open>QuatDistanceData\<close> decodes, the phase is
  \<^verbatim>\<open>data[4] & 0b00000001\<close>: it is 0 or 1 and never 2.
\<close>

theorem QuatDistanceData_phase:
  "QuatDistanceData data = Inr q \<Longrightarrow>
     phase q = uint (data ! 4) AND 1 \<and> (phase q = 0 \<or> phase q = 1) \<and> phase q \<noteq> 2"
  by (auto simp add: QuatDistanceData_def bindE_def index_def Let_def and_one_eq
      split: sum.splits if_splits)

theorem QuatDistanceData_phase_witness:
  "QuatDistanceData (step_payload 4 7 67) =
     Inr \<lparr>qd_step_count = 7, phase = 1, period = 1, event = 2, qd_w = 0, qd_x = 0,
          qd_y = 0, qd_z = 0, x_distance = 0, y_distance = 0, z_distance = 0\<rparr>
   \<and> phase \<lparr>qd_step_count = 7, phase = 1, period = 1, event = 2, qd_w = 0, qd_x = 0,
          qd_y = 0, qd_z = 0, x_distance = 0, y_distance = 0, z_distance = 0\<rparr>
       = uint (step_payload 4 7 67 ! 4) AND 1"
proof -
  have dec: "QuatDistanceData (step_payload 4 7 67) =
     Inr \<lparr>qd_step_count = 7, phase = 1, period = 1, event = 2, qd_w = 0, qd_x = 0,
          qd_y = 0, qd_z = 0, x_distance = 0, y_distance = 0, z_distance = 0\<rparr>"
    by (simp add: step_payload_def QuatDistanceData_def bindE_def index_def unpack_e_def
        slice_def from_bytes_unsigned_def int_from_bytes_def)
  show ?thesis
    using dec QuatDistanceData_phase [OF dec] by simp
qed

section \<open>Notifications of a session that is not connected\<close>

lemma sensor_values_dropped_when_not_connected:
  "\<not> is_connected self \<Longrightarrow> sensor_values_notification_handler clk self data = ([], self, None)"
  by (simp add: sensor_values_notification_handler_def)

text \<open>
  C7 at a session whose \<^verbatim>\<open>client\<close> is \<^verbatim>\<open>None\<close>: the step-analysis handler has no
  \<^verbatim>\<open>is_connected\<close> guard, so a gait payload with step count 8 invokes the gait callback
  and moves the stored gait count from 7 to 8.
\<close>

theorem step_analysis_not_dropped:
  "\<not> is_connected (sample_session\<lparr>client := None\<rparr>)
   \<and> step_analysis_notification_handler (sample_session\<lparr>client := None\<rparr>) (step_payload 0 8 72) =
       ([Gait \<lparr>gait_step_count = 8, gait_type = 0, direction = 1, calorie = 0, distance = 0,
               standing_phase_duration = 0, swing_phase_duration = 0\<rparr>],
        sample_session\<lparr>client := None,
                        step_count := \<lparr>gait = 8, stride = 7, pronation = 7, quat = 7\<rparr>\<rparr>,
        None)"
  by (simp add: is_connected_def step_analysis_notification_handler_def StepAnalysisData_def
      sample_session_def step_payload_def invoke_def GaitData_def bindE_def index_def
      unpack_e_def unpack_f_def slice_def from_bytes_unsigned_def int_from_bytes_def)

section \<open>Facts about the sensor-stream decoder\<close>

lemma replicate_numeral: "replicate (numeral k) x = x # replicate (pred_numeral k) x"
  by (simp add: numeral_eq_Suc)

lemmas sensor_eval =
  replicate_numeral SensorValuesData_def sensor_payload_def sample_session_def index_def
  decode_slots_def header_def bindE_def to_timestamp_def sample_clock_def slice_def
  from_bytes_unsigned_def int_from_bytes_def slot50_def slot55_def slot56_def list_get_def
  invoke_def norm16_def Let_def pressure_channels_def

lemma header_fields:
  "header clk data = Inr hdr \<Longrightarrow>
     svd_serial_number hdr = int_from_bytes (slice data 1 3) False
     \<and> svd_type hdr = int_from_bytes (slice data 0 1) False
     \<and> to_timestamp clk (data ! 3) (data ! 4) (data ! 5) (data ! 6) (data ! 7) =
         Inr (svd_timestamp hdr)
     \<and> 8 \<le> length data"
  by (auto simp add: header_def bindE_def index_def Let_def split: sum.splits if_splits)

lemma header_short: "length data < 8 \<Longrightarrow> header clk data = Inl IndexError"
  by (simp add: header_def bindE_def index_def Let_def)

lemma decode_slots_short:
  "length data < 8 \<Longrightarrow> decode_slots clk data body slots = ([], Inl IndexError)"
  by (simp add: decode_slots_def header_short)

lemma decode_slots_done:
  "decode_slots clk data body slots = (cs, Inr (Some sv)) \<Longrightarrow>
     header clk data = Inr sv
     \<and> for_slots (body (svd_serial_number sv)) slots (svd_timestamp sv) = (cs, None)"
  by (auto simp add: decode_slots_def split: sum.splits prod.splits option.splits)

lemma for_slots_step:
  "for_slots body (i # slots) ts = (cs, None) \<Longrightarrow>
     \<exists>c t cs'. body i ts = Inr (c, t) \<and> for_slots body slots t = (cs', None) \<and> cs = c @ cs'"
  by (auto split: sum.splits prod.splits)

lemma for_slots_calls:
  assumes "\<And>i ts cs ts'. body i ts = Inr (cs, ts') \<Longrightarrow> \<forall>c\<in>set cs. Q c"
  shows "\<forall>c\<in>set (fst (for_slots body slots ts)). Q c"
proof (induction slots arbitrary: ts)
  case Nil
  show ?case by simp
next
  case (Cons i slots)
  show ?case
  proof (cases "body i ts")
    case (Inl e)
    then show ?thesis by simp
  next
    case (Inr r)
    obtain c t where r: "r = (c, t)" by (cases r)
    obtain cs' res where rest: "for_slots body slots t = (cs', res)"
      by (cases "for_slots body slots t")
    have "\<forall>x\<in>set c. Q x" using assms Inr r by blast
    moreover have "\<forall>x\<in>set cs'. Q x" using Cons.IH [of t] rest by simp
    ultimately show ?thesis using Inr r rest by auto
  qed
qed

lemma slot50_result:
  assumes "slot50 owner data rng sn i ts = Inr (cs, ts')"
  shows "ts' = (if i = 3 then ts else ts + uint (data ! (28 + 21 * i)))"
    and "\<forall>c\<in>set cs. call_timestamp c = Some ts' \<and> call_packet_number c = Some (3 - int i)
           \<and> \<not> is_lost c"
  using assms
  by (auto simp add: slot50_def bindE_def index_def Let_def invoke_def
      split: sum.splits if_splits)

lemma slot55_result:
  assumes "slot55 owner data rng sn i ts = Inr (cs, ts')"
  shows "i = 3 \<longrightarrow> ts' = ts"
    and "\<forall>c\<in>set cs. call_timestamp c = Some ts' \<and> call_packet_number c = Some (3 - int i)
           \<and> \<not> is_lost c"
  using assms
  by (auto simp add: slot55_def bindE_def index_def Let_def invoke_def
      split: sum.splits if_splits)

lemma slot56_result:
  assumes "slot56 owner data rng sn i ts = Inr (cs, ts')"
  shows "ts' = ts"
    and "\<forall>c\<in>set cs. call_timestamp c = Some ts' \<and> call_packet_number c = Some (1 - int i)
           \<and> \<not> is_lost c"
  using assms
  by (auto simp add: slot56_def bindE_def index_def Let_def invoke_def
      split: sum.splits if_splits)

lemma SensorValuesData_not_lost:
  "\<forall>c\<in>set (fst (SensorValuesData clk owner data rng)). \<not> is_lost c"
proof -
  have a: "\<forall>c\<in>set (fst (for_slots (slot50 owner data rng sn) slots ts)). \<not> is_lost c"
    for sn slots ts
    by (rule for_slots_calls) (use slot50_result(2) in blast)
  have b: "\<forall>c\<in>set (fst (for_slots (slot55 owner data rng sn) slots ts)). \<not> is_lost c"
    for sn slots ts
    by (rule for_slots_calls) (use slot55_result(2) in blast)
  have c: "\<forall>c\<in>set (fst (for_slots (slot56 owner data rng sn) slots ts)). \<not> is_lost c"
    for sn slots ts
    by (rule for_slots_calls) (use slot56_result(2) in blast)
  have d: "\<forall>c\<in>set (fst (decode_slots clk data body slots)). \<not> is_lost c"
    if "\<And>sn ts. \<forall>c\<in>set (fst (for_slots (body sn) slots ts)). \<not> is_lost c" for body slots
  proof (cases "header clk data")
    case (Inl e)
    then show ?thesis by (simp add: decode_slots_def)
  next
    case (Inr hdr)
    obtain cs r where fs: "for_slots (body (svd_serial_number hdr)) slots (svd_timestamp hdr) = (cs, r)"
      by (cases "for_slots (body (svd_serial_number hdr)) slots (svd_timestamp hdr)")
    have "\<forall>c\<in>set cs. \<not> is_lost c"
      using that [of "svd_serial_number hdr" "svd_timestamp hdr"] fs by simp
    then show ?thesis using Inr fs by (cases r) (simp_all add: decode_slots_def)
  qed
  show ?thesis
    using d [of "slot50 owner data rng", OF a] d [of "slot55 owner data rng", OF b]
      d [of "slot56 owner data rng", OF c]
    by (simp add: SensorValuesData_def split: sum.splits)
qed

section \<open>Serial-number gap detection\<close>

lemma sensor_values_handler_done:
  assumes conn: "is_connected self"
      and tag: "data \<noteq> []" "data ! 0 = 50 \<or> data ! 0 = 55 \<or> data ! 0 = 56"
      and ok: "raised (sensor_values_notification_handler clk self data) = None"
  shows "\<exists>rng cs sv.
           device_range self = Inr rng
           \<and> SensorValuesData clk self data rng = (cs, Inr (Some sv))
           \<and> svd_serial_number sv = int_from_bytes (slice data 1 3) False
           \<and> sensor_values_notification_handler clk self data =
               (cs @ (if svd_serial_number sv - serial_number_prev self > 1
                      then invoke self lost_data_callback
                             (LostData (serial_number_prev self) (svd_serial_number sv))
                      else []),
                self\<lparr>serial_number_prev := svd_serial_number sv\<rparr>, None)"
proof -
  have ix: "index data 0 = Inr (data ! 0)"
    using tag(1) by (simp add: index_def)
  obtain rng where rng: "device_range self = Inr rng"
    using ok conn ix tag(2)
    by (cases "device_range self")
      (auto simp add: sensor_values_notification_handler_def raised_def)
  obtain cs res where dec: "SensorValuesData clk self data rng = (cs, res)"
    by (cases "SensorValuesData clk self data rng")
  obtain sv where sv: "res = Inr (Some sv)"
    using ok conn ix tag(2) rng dec
    by (cases res)
      (auto simp add: sensor_values_notification_handler_def raised_def split: option.splits)
  have "decode_slots clk data (slot50 self data rng) [3, 2, 1, 0] = (cs, Inr (Some sv))
      \<or> decode_slots clk data (slot55 self data rng) [3, 2, 1, 0] = (cs, Inr (Some sv))
      \<or> decode_slots clk data (slot56 self data rng) [1, 0] = (cs, Inr (Some sv))"
    using dec sv ix tag(2) by (auto simp add: SensorValuesData_def)
  then have "header clk data = Inr sv"
    using decode_slots_done by blast
  then have sn: "svd_serial_number sv = int_from_bytes (slice data 1 3) False"
    using header_fields by blast
  have "sensor_values_notification_handler clk self data =
               (cs @ (if svd_serial_number sv - serial_number_prev self > 1
                      then invoke self lost_data_callback
                             (LostData (serial_number_prev self) (svd_serial_number sv))
                      else []),
                self\<lparr>serial_number_prev := svd_serial_number sv\<rparr>, None)"
    using conn ix tag(2) rng dec sv
    by (auto simp add: sensor_values_notification_handler_def)
  then show ?thesis using rng dec sv sn by blast
qed

text \<open>
  C4. For a sensor-stream packet (tag 50, 55 or 56) that a connected session decodes
  without an exception, the invocations of the loss callback (\<open>invoke\<close>: one when the
  callback is set) are: none when the stored serial number is 5 and the packet's is 6;
  exactly one, with arguments (5, 7), when the stored one is 5 and the packet's is 7, the
  stored serial number being 7 only afterwards; none when the stored one is 65535 and the
  packet's is 0. In general the callback is invoked exactly when the packet's serial
  number minus the stored one exceeds 1, with the stored number as it was before the
  update, and the packet's serial number is stored in every case.
\<close>

theorem serial_number_gap:
  assumes "is_connected self"
      and "data \<noteq> []" and "data ! 0 = 50 \<or> data ! 0 = 55 \<or> data ! 0 = 56"
      and "raised (sensor_values_notification_handler clk self data) = None"
  shows "filter is_lost (calls (sensor_values_notification_handler clk self data)) =
           (if int_from_bytes (slice data 1 3) False - serial_number_prev self > 1
            then invoke self lost_data_callback
                   (LostData (serial_number_prev self) (int_from_bytes (slice data 1 3) False))
            else [])
       \<and> serial_number_prev (after (sensor_values_notification_handler clk self data)) =
           int_from_bytes (slice data 1 3) False
       \<and> (serial_number_prev self = 5 \<and> int_from_bytes (slice data 1 3) False = 6 \<longrightarrow>
           filter is_lost (calls (sensor_values_notification_handler clk self data)) = [])
       \<and> (serial_number_prev self = 5 \<and> int_from_bytes (slice data 1 3) False = 7 \<longrightarrow>
           filter is_lost (calls (sensor_values_notification_handler clk self data)) =
             invoke self lost_data_callback (LostData 5 7)
           \<and> serial_number_prev (after (sensor_values_notification_handler clk self data)) = 7)
       \<and> (serial_number_prev self = 65535 \<and> int_from_bytes (slice data 1 3) False = 0 \<longrightarrow>
           filter is_lost (calls (sensor_values_notification_handler clk self data)) = [])"
proof -
  obtain rng cs sv where
    dec: "SensorValuesData clk self data rng = (cs, Inr (Some sv))" and
    sn: "svd_serial_number sv = int_from_bytes (slice data 1 3) False" and
    run: "sensor_values_notification_handler clk self data =
               (cs @ (if svd_serial_number sv - serial_number_prev self > 1
                      then invoke self lost_data_callback
                             (LostData (serial_number_prev self) (svd_serial_number sv))
                      else []),
                self\<lparr>serial_number_prev := svd_serial_number sv\<rparr>, None)"
    using sensor_values_handler_done [OF assms] by blast
  have "\<forall>c\<in>set cs. \<not> is_lost c"
    using SensorValuesData_not_lost [of clk self data rng] dec by simp
  then have none: "filter is_lost cs = []"
    by (simp add: filter_empty_conv)
  have general: "filter is_lost (calls (sensor_values_notification_handler clk self data)) =
           (if int_from_bytes (slice data 1 3) False - serial_number_prev self > 1
            then invoke self lost_data_callback
                   (LostData (serial_number_prev self) (int_from_bytes (slice data 1 3) False))
            else [])"
    using run sn none by (simp add: calls_def invoke_def)
  have stored: "serial_number_prev (after (sensor_values_notification_handler clk self data)) =
           int_from_bytes (slice data 1 3) False"
    using run sn by (simp add: after_def)
  show ?thesis
    using general stored by simp
qed

theorem serial_number_gap_witness:
  "filter is_lost (calls (sensor_values_notification_handler sample_clock
       (sample_session\<lparr>callbacks := {lost_data_callback}\<rparr>) (sensor_payload 50 0 6 84 1))) = []
   \<and> filter is_lost (calls (sensor_values_notification_handler sample_clock
       (sample_session\<lparr>callbacks := {lost_data_callback}\<rparr>) (sensor_payload 55 0 7 96 1))) =
       [LostData 5 7]
   \<and> serial_number_prev (after (sensor_values_notification_handler sample_clock
       (sample_session\<lparr>callbacks := {lost_data_callback}\<rparr>) (sensor_payload 55 0 7 96 1))) = 7
   \<and> filter is_lost (calls (sensor_values_notification_handler sample_clock
       (sample_session\<lparr>callbacks := {lost_data_callback}, serial_number_prev := 65535\<rparr>)
       (sensor_payload 56 0 0 64 1))) = []"
proof -
  let ?s = "sample_session\<lparr>callbacks := {lost_data_callback}\<rparr>"
  let ?t = "sample_session\<lparr>callbacks := {lost_data_callback}, serial_number_prev := 65535\<rparr>"
  have conn: "is_connected ?s" "is_connected ?t"
    by (simp_all add: is_connected_def sample_session_def)
  have r1: "raised (sensor_values_notification_handler sample_clock ?s (sensor_payload 50 0 6 84 1)) = None"
    by (simp add: sensor_eval sensor_values_notification_handler_def is_connected_def
        device_range_def DeviceInformation_def sample_information_def raised_def)
  have r2: "raised (sensor_values_notification_handler sample_clock ?s (sensor_payload 55 0 7 96 1)) = None"
    by (simp add: sensor_eval sensor_values_notification_handler_def is_connected_def
        device_range_def DeviceInformation_def sample_information_def raised_def)
  have r3: "raised (sensor_values_notification_handler sample_clock ?t (sensor_payload 56 0 0 64 1)) = None"
    by (simp add: sensor_eval sensor_values_notification_handler_def is_connected_def
        device_range_def DeviceInformation_def sample_information_def raised_def)
  have p: "sensor_payload 50 0 6 84 1 \<noteq> []" "sensor_payload 55 0 7 96 1 \<noteq> []"
      "sensor_payload 56 0 0 64 1 \<noteq> []"
      "sensor_payload 50 0 6 84 1 ! 0 = 50" "sensor_payload 55 0 7 96 1 ! 0 = 55"
      "sensor_payload 56 0 0 64 1 ! 0 = 56"
    by (simp_all add: sensor_payload_def)
  have sn: "int_from_bytes (slice (sensor_payload 50 0 6 84 1) 1 3) False = 6"
      "int_from_bytes (slice (sensor_payload 55 0 7 96 1) 1 3) False = 7"
      "int_from_bytes (slice (sensor_payload 56 0 0 64 1) 1 3) False = 0"
    by (simp_all add: sensor_payload_def slice_def int_from_bytes_def from_bytes_unsigned_def)
  have prev: "serial_number_prev ?s = 5" "serial_number_prev ?t = 65535"
      "lost_data_callback \<in> callbacks ?s"
    by (simp_all add: sample_session_def)
  show ?thesis
    using serial_number_gap [OF conn(1) p(1) _ r1] serial_number_gap [OF conn(1) p(2) _ r2]
      serial_number_gap [OF conn(2) p(3) _ r3] p(4-6) sn prev
    by (simp add: invoke_def)
qed

section \<open>Timestamps of the sample slots\<close>

text \<open>
  C3, as stated, at a tag-56 payload whose bytes after the header are all 1, so that any
  byte read as a delta is 1: both slots carry the base timestamp 0; the older slot
  (packet number 1) does not carry the base timestamp plus the byte after its fields.
\<close>

theorem tag_56_timestamps_counterexample:
  "map call_timestamp (fst (SensorValuesData sample_clock
       acc_session (sensor_payload 56 0 6 64 1)
       \<lparr>acc = 0, gyro = 3\<rparr>)) = [Some 0, Some 0]
   \<and> map call_packet_number (fst (SensorValuesData sample_clock
       acc_session (sensor_payload 56 0 6 64 1)
       \<lparr>acc = 0, gyro = 3\<rparr>)) = [Some 0, Some 1]
   \<and> uint (sensor_payload 56 0 6 64 1 ! 40) = 1"
  by (simp add: sensor_eval acc_session_def)

text \<open>
  C3, amended. For a payload that \<^verbatim>\<open>SensorValuesData\<close> decodes, the header's timestamp is
  \<^verbatim>\<open>to_timestamp\<close> of bytes 3 to 7, and every callback invoked carries: for tag 50, the
  header's timestamp in the newest slot (slot 3, packet number 0) and, in each older slot
  \<open>i\<close>, the previous slot's timestamp plus byte \<open>28 + 21 * i\<close>, the byte after the 20
  bytes of fields of slot \<open>i\<close>; for tag 56, the header's timestamp in both slots; for tag
  55, the header's timestamp in the newest slot.
\<close>

theorem slot_timestamps:
  assumes "SensorValuesData clk owner data rng = (cs, Inr (Some sv))" and "c \<in> set cs"
  shows "(data ! 0 = 50 \<or> data ! 0 = 55 \<or> data ! 0 = 56 \<longrightarrow>
            to_timestamp clk (data ! 3) (data ! 4) (data ! 5) (data ! 6) (data ! 7) =
              Inr (svd_timestamp sv))
       \<and> (data ! 0 = 50 \<longrightarrow>
            call_packet_number c = Some 0 \<and> call_timestamp c = Some (svd_timestamp sv)
          \<or> call_packet_number c = Some 1
             \<and> call_timestamp c = Some (svd_timestamp sv + uint (data ! (28 + 21 * 2)))
          \<or> call_packet_number c = Some 2
             \<and> call_timestamp c =
                 Some (svd_timestamp sv + uint (data ! (28 + 21 * 2)) + uint (data ! (28 + 21 * 1)))
          \<or> call_packet_number c = Some 3
             \<and> call_timestamp c =
                 Some (svd_timestamp sv + uint (data ! (28 + 21 * 2)) + uint (data ! (28 + 21 * 1))
                       + uint (data ! (28 + 21 * 0))))
       \<and> (data ! 0 = 56 \<longrightarrow>
            call_timestamp c = Some (svd_timestamp sv)
            \<and> (call_packet_number c = Some 0 \<or> call_packet_number c = Some 1))
       \<and> (data ! 0 = 55 \<longrightarrow>
            (call_packet_number c = Some 0 \<longrightarrow> call_timestamp c = Some (svd_timestamp sv)))"
proof -
  have ix: "index data 0 = Inr (data ! 0)"
    using assms(1) by (auto simp add: SensorValuesData_def index_def split: if_splits)
  have t50: ?thesis if tag: "data ! 0 = 50"
  proof -
    have "decode_slots clk data (slot50 owner data rng) [3, 2, 1, 0] = (cs, Inr (Some sv))"
      using assms(1) ix tag by (simp add: SensorValuesData_def)
    then have hdr: "header clk data = Inr sv"
      and loop: "for_slots (slot50 owner data rng (svd_serial_number sv)) [3, 2, 1, 0]
                   (svd_timestamp sv) = (cs, None)"
      using decode_slots_done by blast+
    obtain c3 t3 r3 where s3: "slot50 owner data rng (svd_serial_number sv) 3 (svd_timestamp sv) = Inr (c3, t3)"
      and l3: "for_slots (slot50 owner data rng (svd_serial_number sv)) [2, 1, 0] t3 = (r3, None)"
      and e3: "cs = c3 @ r3"
      using for_slots_step [OF loop] by blast
    obtain c2 t2 r2 where s2: "slot50 owner data rng (svd_serial_number sv) 2 t3 = Inr (c2, t2)"
      and l2: "for_slots (slot50 owner data rng (svd_serial_number sv)) [1, 0] t2 = (r2, None)"
      and e2: "r3 = c2 @ r2"
      using for_slots_step [OF l3] by blast
    obtain c1 t1 r1 where s1: "slot50 owner data rng (svd_serial_number sv) 1 t2 = Inr (c1, t1)"
      and l1: "for_slots (slot50 owner data rng (svd_serial_number sv)) [0] t1 = (r1, None)"
      and e1: "r2 = c1 @ r1"
      using for_slots_step [OF l2] by blast
    obtain c0 t0 r0 where s0: "slot50 owner data rng (svd_serial_number sv) 0 t1 = Inr (c0, t0)"
      and l0: "for_slots (slot50 owner data rng (svd_serial_number sv)) [] t0 = (r0, None)"
      and e0: "r1 = c0 @ r0"
      using for_slots_step [OF l1] by blast
    have r0: "r0 = []" using l0 by simp
    have ts: "t3 = svd_timestamp sv" "t2 = t3 + uint (data ! 70)" "t1 = t2 + uint (data ! 49)"
        "t0 = t1 + uint (data ! 28)"
      using slot50_result(1) [OF s3] slot50_result(1) [OF s2] slot50_result(1) [OF s1]
        slot50_result(1) [OF s0] by simp_all
    have "c \<in> set c3 \<or> c \<in> set c2 \<or> c \<in> set c1 \<or> c \<in> set c0"
      using assms(2) e3 e2 e1 e0 r0 by auto
    then have "call_packet_number c = Some 0 \<and> call_timestamp c = Some t3
        \<or> call_packet_number c = Some 1 \<and> call_timestamp c = Some t2
        \<or> call_packet_number c = Some 2 \<and> call_timestamp c = Some t1
        \<or> call_packet_number c = Some 3 \<and> call_timestamp c = Some t0"
      using slot50_result(2) [OF s3] slot50_result(2) [OF s2] slot50_result(2) [OF s1]
        slot50_result(2) [OF s0] by fastforce
    then show ?thesis
      using tag ts header_fields [OF hdr] by simp
  qed
  have t56: ?thesis if tag: "data ! 0 = 56"
  proof -
    have "decode_slots clk data (slot56 owner data rng) [1, 0] = (cs, Inr (Some sv))"
      using assms(1) ix tag by (simp add: SensorValuesData_def)
    then have hdr: "header clk data = Inr sv"
      and loop: "for_slots (slot56 owner data rng (svd_serial_number sv)) [1, 0]
                   (svd_timestamp sv) = (cs, None)"
      using decode_slots_done by blast+
    obtain c1 t1 r1 where s1: "slot56 owner data rng (svd_serial_number sv) 1 (svd_timestamp sv) = Inr (c1, t1)"
      and l1: "for_slots (slot56 owner data rng (svd_serial_number sv)) [0] t1 = (r1, None)"
      and e1: "cs = c1 @ r1"
      using for_slots_step [OF loop] by blast
    obtain c0 t0 r0 where s0: "slot56 owner data rng (svd_serial_number sv) 0 t1 = Inr (c0, t0)"
      and l0: "for_slots (slot56 owner data rng (svd_serial_number sv)) [] t0 = (r0, None)"
      and e0: "r1 = c0 @ r0"
      using for_slots_step [OF l1] by blast
    have r0: "r0 = []" using l0 by simp
    have ts: "t1 = svd_timestamp sv" "t0 = t1"
      using slot56_result(1) [OF s1] slot56_result(1) [OF s0] by simp_all
    have "c \<in> set c1 \<or> c \<in> set c0"
      using assms(2) e1 e0 r0 by auto
    then have "call_packet_number c = Some 0 \<and> call_timestamp c = Some t1
        \<or> call_packet_number c = Some 1 \<and> call_timestamp c = Some t0"
      using slot56_result(2) [OF s1] slot56_result(2) [OF s0] by fastforce
    then show ?thesis
      using tag ts header_fields [OF hdr] by auto
  qed
  have t55: ?thesis if tag: "data ! 0 = 55"
  proof -
    have "decode_slots clk data (slot55 owner data rng) [3, 2, 1, 0] = (cs, Inr (Some sv))"
      using assms(1) ix tag by (simp add: SensorValuesData_def)
    then have hdr: "header clk data = Inr sv"
      and loop: "for_slots (slot55 owner data rng (svd_serial_number sv)) [3, 2, 1, 0]
                   (svd_timestamp sv) = (cs, None)"
      using decode_slots_done by blast+
    obtain c3 t3 r3 where s3: "slot55 owner data rng (svd_serial_number sv) 3 (svd_timestamp sv) = Inr (c3, t3)"
      and l3: "for_slots (slot55 owner data rng (svd_serial_number sv)) [2, 1, 0] t3 = (r3, None)"
      and e3: "cs = c3 @ r3"
      using for_slots_step [OF loop] by blast
    obtain c2 t2 r2 where s2: "slot55 owner data rng (svd_serial_number sv) 2 t3 = Inr (c2, t2)"
      and l2: "for_slots (slot55 owner data rng (svd_serial_number sv)) [1, 0] t2 = (r2, None)"
      and e2: "r3 = c2 @ r2"
      using for_slots_step [OF l3] by blast
    obtain c1 t1 r1 where s1: "slot55 owner data rng (svd_serial_number sv) 1 t2 = Inr (c1, t1)"
      and l1: "for_slots (slot55 owner data rng (svd_serial_number sv)) [0] t1 = (r1, None)"
      and e1: "r2 = c1 @ r1"
      using for_slots_step [OF l2] by blast
    obtain c0 t0 r0 where s0: "slot55 owner data rng (svd_serial_number sv) 0 t1 = Inr (c0, t0)"
      and l0: "for_slots (slot55 owner data rng (svd_serial_number sv)) [] t0 = (r0, None)"
      and e0: "r1 = c0 @ r0"
      using for_slots_step [OF l1] by blast
    have r0: "r0 = []" using l0 by simp
    have ts: "t3 = svd_timestamp sv"
      using slot55_result(1) [OF s3] by simp
    have "c \<in> set c3 \<or> c \<in> set c2 \<or> c \<in> set c1 \<or> c \<in> set c0"
      using assms(2) e3 e2 e1 e0 r0 by auto
    then have "call_packet_number c = Some 0 \<and> call_timestamp c = Some t3
        \<or> call_packet_number c = Some 1
        \<or> call_packet_number c = Some 2
        \<or> call_packet_number c = Some 3"
      using slot55_result(2) [OF s3] slot55_result(2) [OF s2] slot55_result(2) [OF s1]
        slot55_result(2) [OF s0] by fastforce
    then show ?thesis
      using tag ts header_fields [OF hdr] by auto
  qed
  show ?thesis
  proof (cases "data ! 0 = 50 \<or> data ! 0 = 55 \<or> data ! 0 = 56")
    case True
    then show ?thesis using t50 t55 t56 by blast
  next
    case False
    then show ?thesis by simp
  qed
qed

theorem slot_timestamps_witness:
  "SensorValuesData sample_clock acc_session (sensor_payload 50 0 6 84 1) \<lparr>acc = 0, gyro = 3\<rparr> =
     ([sample_acc (257 / 32768) 0 0, sample_acc (257 / 32768) 1 1,
       sample_acc (257 / 32768) 2 2, sample_acc (257 / 32768) 3 3], Inr (Some (sample_header 50)))
   \<and> call_packet_number (sample_acc (257 / 32768) 3 3) = Some 3
   \<and> call_timestamp (sample_acc (257 / 32768) 3 3) = Some 3
   \<and> SensorValuesData sample_clock acc_session (sensor_payload 56 0 6 64 1) \<lparr>acc = 0, gyro = 3\<rparr> =
     ([sample_acc (257 / 32768) 0 0, sample_acc (257 / 32768) 0 1], Inr (Some (sample_header 56)))
   \<and> call_packet_number (sample_acc (257 / 32768) 0 1) = Some 1
   \<and> call_timestamp (sample_acc (257 / 32768) 0 1) = Some 0
   \<and> SensorValuesData sample_clock acc_session (sensor_payload 55 0 6 96 1) \<lparr>acc = 0, gyro = 3\<rparr> =
     ([sample_acc (257 / 32768) 0 0, sample_acc (257 / 32768) 1 1,
       sample_acc (257 / 32768) 2 2, sample_acc (257 / 32768) 3 3], Inr (Some (sample_header 55)))
   \<and> call_packet_number (sample_acc (257 / 32768) 0 0) = Some 0
   \<and> call_timestamp (sample_acc (257 / 32768) 0 0) = Some 0"
proof -
  have d50: "SensorValuesData sample_clock acc_session (sensor_payload 50 0 6 84 1)
        \<lparr>acc = 0, gyro = 3\<rparr> =
     ([sample_acc (257 / 32768) 0 0, sample_acc (257 / 32768) 1 1,
       sample_acc (257 / 32768) 2 2, sample_acc (257 / 32768) 3 3], Inr (Some (sample_header 50)))"
    by (simp add: sensor_eval acc_session_def sample_acc_def sample_header_def)
  have d56: "SensorValuesData sample_clock acc_session (sensor_payload 56 0 6 64 1)
        \<lparr>acc = 0, gyro = 3\<rparr> =
     ([sample_acc (257 / 32768) 0 0, sample_acc (257 / 32768) 0 1], Inr (Some (sample_header 56)))"
    by (simp add: sensor_eval acc_session_def sample_acc_def sample_header_def)
  have d55: "SensorValuesData sample_clock acc_session (sensor_payload 55 0 6 96 1)
        \<lparr>acc = 0, gyro = 3\<rparr> =
     ([sample_acc (257 / 32768) 0 0, sample_acc (257 / 32768) 1 1,
       sample_acc (257 / 32768) 2 2, sample_acc (257 / 32768) 3 3], Inr (Some (sample_header 55)))"
    by (simp add: sensor_eval acc_session_def sample_acc_def sample_header_def)
  have m50: "sample_acc (257 / 32768) 3 3 \<in> set [sample_acc (257 / 32768) 0 0,
       sample_acc (257 / 32768) 1 1, sample_acc (257 / 32768) 2 2, sample_acc (257 / 32768) 3 3]"
    by simp
  have m56: "sample_acc (257 / 32768) 0 1 \<in> set [sample_acc (257 / 32768) 0 0,
       sample_acc (257 / 32768) 0 1]"
    by simp
  have m55: "sample_acc (257 / 32768) 0 0 \<in> set [sample_acc (257 / 32768) 0 0,
       sample_acc (257 / 32768) 1 1, sample_acc (257 / 32768) 2 2, sample_acc (257 / 32768) 3 3]"
    by simp
  have tags: "sensor_payload 50 0 6 84 1 ! 0 = 50" "sensor_payload 56 0 6 64 1 ! 0 = 56"
      "sensor_payload 55 0 6 96 1 ! 0 = 55"
    by (simp_all add: sensor_payload_def)
  show ?thesis
    using slot_timestamps [OF d50 m50] slot_timestamps [OF d56 m56] slot_timestamps [OF d55 m55]
      tags d50 d56 d55
    by (simp add: sample_acc_def sample_header_def)
qed

section \<open>Payloads shorter than their format\<close>

text \<open>
  C6, as stated, at a tag-56 payload of 8 bytes, 64 short of the 72 of the format: nothing
  is raised, and both slots are decoded from empty slices and reported, every value 0.
\<close>

theorem tag_56_header_only_counterexample:
  "SensorValuesData sample_clock acc_session [56, 0, 6, 0, 0, 0, 0, 0] \<lparr>acc = 0, gyro = 3\<rparr> =
     ([sample_acc 0 0 0, sample_acc 0 0 1], Inr (Some (sample_header 56)))"
  by (simp add: sensor_eval acc_session_def sample_acc_def sample_header_def)

text \<open>
  A tag-50 payload of 8 bytes does raise, at the delta byte of slot 2, but after the
  callbacks of the newest slot.
\<close>

lemma tag_50_header_only:
  "SensorValuesData sample_clock acc_session [50, 0, 6, 0, 0, 0, 0, 0] \<lparr>acc = 0, gyro = 3\<rparr> =
     ([sample_acc 0 0 0], Inl IndexError)"
  by (simp add: sensor_eval acc_session_def sample_acc_def sample_header_def)

text \<open>
  C6, amended. A payload whose first byte is 50, 55 or 56 and that is shorter than the
  8-byte header raises \<^verbatim>\<open>IndexError\<close> and invokes no callback; a connected session whose
  configuration has been read keeps its state.
\<close>

theorem short_header_raises:
  assumes "data \<noteq> []" and "data ! 0 = 50 \<or> data ! 0 = 55 \<or> data ! 0 = 56"
      and "length data < 8"
  shows "SensorValuesData clk owner data rng = ([], Inl IndexError)
       \<and> (is_connected self \<and> device_information self = Value di \<longrightarrow>
            sensor_values_notification_handler clk self data = ([], self, Some IndexError))"
proof -
  have ix: "index data 0 = Inr (data ! 0)"
    using assms(1) by (simp add: index_def)
  have dec: "SensorValuesData clk owner data rng = ([], Inl IndexError)" for owner rng
    using assms(2,3) ix by (auto simp add: SensorValuesData_def decode_slots_short)
  show ?thesis
    using dec [of owner rng] dec [of self "di_range di"] ix assms(2)
    by (auto simp add: sensor_values_notification_handler_def device_range_def)
qed

theorem short_header_raises_witness:
  "SensorValuesData sample_clock acc_session [50, 0, 6, 0, 0] \<lparr>acc = 0, gyro = 3\<rparr> =
     ([], Inl IndexError)
   \<and> sensor_values_notification_handler sample_clock acc_session [50, 0, 6, 0, 0] =
       ([], acc_session, Some IndexError)"
proof -
  have "is_connected acc_session
      \<and> device_information acc_session = Value (DeviceInformation sample_information)"
    by (simp add: acc_session_def sample_session_def is_connected_def)
  then show ?thesis
    using short_header_raises [of "[50, 0, 6, 0, 0]" sample_clock acc_session
        "\<lparr>acc = 0, gyro = 3\<rparr>" acc_session "DeviceInformation sample_information"]
    by simp
qed

section \<open>The legacy format tag 40\<close>

text \<open>
  C8, as stated, at a 92-byte payload: under tag 40 nothing is decoded and no callback
  is invoked, while the same bytes under tag 50 give a header and four accelerometer
  callbacks.
\<close>

theorem tag_40_counterexample:
  "SensorValuesData sample_clock acc_session (sensor_payload 40 0 6 84 1) \<lparr>acc = 0, gyro = 3\<rparr> =
     ([], Inr None)
   \<and> SensorValuesData sample_clock acc_session (sensor_payload 50 0 6 84 1) \<lparr>acc = 0, gyro = 3\<rparr> =
     ([sample_acc (257 / 32768) 0 0, sample_acc (257 / 32768) 1 1,
       sample_acc (257 / 32768) 2 2, sample_acc (257 / 32768) 3 3], Inr (Some (sample_header 50)))"
  by (simp add: sensor_eval acc_session_def sample_acc_def sample_header_def)

text \<open>
  C8, amended. A payload whose first byte is 40 is handed to \<^verbatim>\<open>SensorValuesData\<close>, which
  has no branch for it: no attribute is set, no callback invoked, nothing raised; the
  handler of a connected session whose configuration has been read leaves the session as
  it is, the stored serial number included.
\<close>

theorem tag_40_not_decoded:
  assumes "data \<noteq> []" and "data ! 0 = 40"
  shows "SensorValuesData clk owner data rng = ([], Inr None)
       \<and> (is_connected self \<and> device_information self = Value di \<longrightarrow>
            sensor_values_notification_handler clk self data = ([], self, None))"
proof -
  have ix: "index data 0 = Inr 40"
    using assms by (simp add: index_def)
  have dec: "SensorValuesData clk owner data rng = ([], Inr None)" for owner rng
    using ix by (simp add: SensorValuesData_def)
  show ?thesis
    using dec [of owner rng] dec [of self "di_range di"] ix
    by (auto simp add: sensor_values_notification_handler_def device_range_def)
qed

theorem tag_40_not_decoded_witness:
  "SensorValuesData sample_clock acc_session (sensor_payload 40 0 6 84 1) \<lparr>acc = 0, gyro = 3\<rparr> =
     ([], Inr None)
   \<and> sensor_values_notification_handler sample_clock acc_session (sensor_payload 40 0 6 84 1) =
       ([], acc_session, None)"
proof -
  have "is_connected acc_session
      \<and> device_information acc_session = Value (DeviceInformation sample_information)"
    by (simp add: acc_session_def sample_session_def is_connected_def)
  moreover have "sensor_payload 40 0 6 84 1 \<noteq> [] \<and> sensor_payload 40 0 6 84 1 ! 0 = 40"
    by (simp add: sensor_payload_def)
  ultimately show ?thesis
    using tag_40_not_decoded [of "sensor_payload 40 0 6 84 1" sample_clock acc_session
        "\<lparr>acc = 0, gyro = 3\<rparr>" acc_session "DeviceInformation sample_information"]
    by simp
qed

section \<open>Range scaling\<close>














section \<open>Writing the device configuration and reading it back\<close>

lemma and_255_byte: "0 \<le> (c::int) AND 255 \<and> c AND 255 < 256"
proof -
  have "c AND 255 \<le> 255" by (rule AND_upper2) simp
  then show ?thesis by simp
qed

lemma uint_byte: "0 \<le> x \<Longrightarrow> x < 256 \<Longrightarrow> uint (word_of_int x :: byte) = x"
  by (simp add: uint_word_of_int_eq take_bit_int_eq_self)

lemma checksum_loop_sum:
  "\<forall>i\<in>set is. i < length data \<Longrightarrow>
     checksum_loop data is c = Inr (c + sum_list (map (\<lambda>i. uint (data ! i)) is))"
  by (induction "is" arbitrary: c) (simp_all add: bindE_def index_def)

lemma getChecksum_19:
  "19 \<le> length data \<Longrightarrow>
     getChecksum data = Inr (sum_list (map (\<lambda>i. uint (data ! i)) [0..<19]) AND 255)"
  by (simp add: getChecksum_def checksum_loop_sum bindE_def del: upt_rec_numeral)

lemma upt_19: "[0..<19] = [0, 1, 2, 3, 4, 5, 6, 7, 8, 9, 10, 11, 12, 13, 14, 15, 16, 17, 18]"
  by (simp add: upt_conv_Cons)

lemma write_buffer_value:
  assumes "0 \<le> mount_position di" "mount_position di < 256"
      and "0 \<le> acc (di_range di)" "acc (di_range di) < 256"
      and "0 \<le> gyro (di_range di)" "gyro (di_range di) < 256"
      and "0 \<le> version di" "version di < 256"
  shows "write_buffer di =
           Inr ([9, word_of_int (mount_position di), 0, 0, 1, 0, 60,
                 word_of_int (acc (di_range di)), word_of_int (gyro (di_range di)),
                 0, 0, 0, 255, 0, 0, 0, 0, 0, word_of_int (version di),
                 word_of_int ((325 + mount_position di + acc (di_range di) + gyro (di_range di)
                       + version di) AND 255)])"
proof -
  let ?ba = "[9, word_of_int (mount_position di), 0, 0, 1, 0, 60,
              word_of_int (acc (di_range di)), word_of_int (gyro (di_range di)),
              0, 0, 0, 255, 0, 0, 0, 0, 0, word_of_int (version di)] :: bytes"
  let ?c = "(325 + mount_position di + acc (di_range di) + gyro (di_range di) + version di) AND 255"
  have b1: "bytearray [9, mount_position di, 0, 0, 1, 0, 60, acc (di_range di),
              gyro (di_range di), 0, 0, 0, 255, 0, 0, 0, 0, 0, version di] = Inr ?ba"
    using assms by (simp add: bytearray_def)
  have "getChecksum ?ba = Inr (sum_list (map (\<lambda>i. uint (?ba ! i)) [0..<19]) AND 255)"
    by (rule getChecksum_19) simp
  also have "sum_list (map (\<lambda>i. uint (?ba ! i)) [0..<19]) =
      325 + mount_position di + acc (di_range di) + gyro (di_range di) + version di"
    using assms by (simp add: uint_byte upt_19)
  finally have b2: "getChecksum ?ba = Inr ?c" .
  have b3: "bytearray [?c] = Inr [word_of_int ?c]"
    using and_255_byte [of "325 + mount_position di + acc (di_range di) + gyro (di_range di)
        + version di"]
    by (simp add: bytearray_def)
  show ?thesis
    unfolding write_buffer_def b1 by (simp add: bindE_def b2 b3)
qed

text \<open>
  C2, as stated, at the configuration with accel range index 1 and gyro range index 2:
  the buffer written holds them at bytes 7 and 8, the decoder reads bytes 8 and 9, and
  the configuration read back has accel range index 2 and gyro range index 0.
\<close>

theorem written_ranges_counterexample:
  "decode_written sample_config =
     Inr \<lparr>di_data = [9, 1, 0, 0, 1, 0, 60, 1, 2, 0, 0, 0, 255, 0, 0, 0, 0, 0, 7, 80],
          battery = 9, mount_position = 1, di_range = \<lparr>acc = 2, gyro = 0\<rparr>, version = 7\<rparr>
   \<and> acc (di_range sample_config) = 1 \<and> gyro (di_range sample_config) = 2"
  by (simp add: decode_written_def write_buffer_def sample_config_def bytearray_def
      getChecksum_def bindE_def index_def DeviceInformation_def slice_def int_from_bytes_def
      from_bytes_unsigned_def upt_19)

text \<open>
  C2, amended. For every configuration whose mount position, range indices and version
  fit a byte, writing it and decoding the buffer written succeeds and reproduces the
  mount position and the version; the accel range index decoded is the gyro range index
  written, the gyro range index decoded is 0, and the battery decoded is the header
  byte 9.
\<close>

theorem written_then_decoded:
  assumes "0 \<le> mount_position di" "mount_position di < 256"
      and "0 \<le> acc (di_range di)" "acc (di_range di) < 256"
      and "0 \<le> gyro (di_range di)" "gyro (di_range di) < 256"
      and "0 \<le> version di" "version di < 256"
  shows "decode_written di =
           Inr \<lparr>di_data = projr (write_buffer di), battery = 9,
                mount_position = mount_position di,
                di_range = \<lparr>acc = gyro (di_range di), gyro = 0\<rparr>,
                version = version di\<rparr>"
  using assms
  by (simp add: decode_written_def write_buffer_value [OF assms] bindE_def DeviceInformation_def
      slice_def int_from_bytes_def from_bytes_unsigned_def uint_byte)

theorem written_then_decoded_witness:
  "decode_written (sample_config\<lparr>mount_position := 3, di_range := \<lparr>acc = 3, gyro = 1\<rparr>\<rparr>) =
     Inr \<lparr>di_data = [9, 3, 0, 0, 1, 0, 60, 3, 1, 0, 0, 0, 255, 0, 0, 0, 0, 0, 7, 83],
          battery = 9, mount_position = 3, di_range = \<lparr>acc = 1, gyro = 0\<rparr>, version = 7\<rparr>"
proof -
  have w: "write_buffer (sample_config\<lparr>mount_position := 3, di_range := \<lparr>acc = 3, gyro = 1\<rparr>\<rparr>) =
      Inr [9, 3, 0, 0, 1, 0, 60, 3, 1, 0, 0, 0, 255, 0, 0, 0, 0, 0, 7, 83]"
    by (simp add: write_buffer_def sample_config_def bytearray_def getChecksum_def bindE_def
        index_def upt_19)
  show ?thesis
    using written_then_decoded
      [of "sample_config\<lparr>mount_position := 3, di_range := \<lparr>acc = 3, gyro = 1\<rparr>\<rparr>"] w
    by (simp add: sample_config_def)
qed

end
